theory Spec2Isabelle
  imports Complex_Main
begin

section \<open>Loan present value calculator: the model\<close>

text \<open>
  The development embeds \<^verbatim>\<open>loan_calculator.py\<close>: the class \<^verbatim>\<open>LoanCalculator\<close> with its
  four constants, its four validators and \<^verbatim>\<open>calculate_present_value\<close>.

  Arguments are Python objects. The validators inspect their run-time type with
  \<^verbatim>\<open>isinstance\<close>, so the model keeps the type: an \<^verbatim>\<open>int\<close>, a \<^verbatim>\<open>float\<close>, a \<^verbatim>\<open>bool\<close> (a subclass
  of \<^verbatim>\<open>int\<close> in Python, with \<^verbatim>\<open>True == 1\<close>), a \<^verbatim>\<open>str\<close> or \<^verbatim>\<open>None\<close>.

  Numbers are modelled exactly: a Python \<^verbatim>\<open>float\<close> is the real number it denotes and
  the arithmetic on it is exact. The binary64 format is outside the model:
  \<^item> a NaN argument has no counterpart (the validators of the source let it through, every
    comparison with it being false, and the function then returns NaN), nor have the
    infinities;
  \<^item> the quotient, the power and the products are not rounded and never overflow, and a
    periodic rate too small for the format is not zero here (in the source
    \<^verbatim>\<open>5e-324 / 12 == 0.0\<close> takes the zero-rate return);
  \<^item> \<^verbatim>\<open>round\<close> gives the exact multiple of \<open>1 / 100\<close> where the source gives the double
    nearest to it.

  The statements of this theory are kept to what does not turn on these differences:
  the comparisons of the validators (Python compares an \<^verbatim>\<open>int\<close> with a \<^verbatim>\<open>float\<close> by
  value, as the model does), evaluations at inputs far from a rounding tie, and bounds
  with a margin of a cent on arguments given as numbers in range. How two returned
  values at nearby arguments compare (an ordering, a tolerance) is decided by the binary
  format and is not stated here.
\<close>

datatype py_value = PyInt int | PyFloat real | PyBool bool | PyStr string | PyNone

text \<open>
  The exceptions the function body can raise: \<^verbatim>\<open>ValueError\<close> with its message (raised by
  the validators), \<^verbatim>\<open>ZeroDivisionError\<close> (a division by zero, or zero raised to a negative
  power) and \<^verbatim>\<open>TypeError\<close> (arithmetic on an object that is not a number).
\<close>

datatype error = ValueError string | ZeroDivisionError | TypeError

subsection \<open>Constants for validation\<close>

definition MAX_INTEREST_RATE :: real where
  "MAX_INTEREST_RATE = 1"

definition MAX_PAYMENT :: int where
  "MAX_PAYMENT = 1000000000"

definition MAX_PERIODS :: int where
  "MAX_PERIODS = 600"

definition MIN_PERIODS :: int where
  "MIN_PERIODS = 1"

subsection \<open>Run-time types and values\<close>

text \<open>
  \<open>num x\<close> is the value of \<open>x\<close> when \<^verbatim>\<open>isinstance(x, (int, float))\<close> holds, and
  \<open>None\<close> otherwise; \<open>int_of x\<close> is the value of \<open>x\<close> when \<^verbatim>\<open>isinstance(x, int)\<close> holds.
\<close>

fun num :: "py_value \<Rightarrow> real option" where
  "num (PyInt i) = Some (of_int i)"
| "num (PyFloat x) = Some x"
| "num (PyBool b) = Some (of_bool b)"
| "num (PyStr s) = None"
| "num PyNone = None"

fun int_of :: "py_value \<Rightarrow> int option" where
  "int_of (PyInt i) = Some i"
| "int_of (PyBool b) = Some (of_bool b)"
| "int_of (PyFloat x) = None"
| "int_of (PyStr s) = None"
| "int_of PyNone = None"

subsection \<open>Exceptions as values\<close>

definition and_then :: "error + 'a \<Rightarrow> ('a \<Rightarrow> error + 'b) \<Rightarrow> error + 'b" where
  "and_then m k = (case m of Inl e \<Rightarrow> Inl e | Inr v \<Rightarrow> k v)"

subsection \<open>Arithmetic\<close>

text \<open>True division \<^verbatim>\<open>a / b\<close> of two numbers.\<close>

definition py_truediv :: "real \<Rightarrow> real \<Rightarrow> error + real" where
  "py_truediv a b = (if b = 0 then Inl ZeroDivisionError else Inr (a / b))"

text \<open>\<^verbatim>\<open>base ** e\<close> for a float base and an integer exponent.\<close>

definition py_pow :: "real \<Rightarrow> int \<Rightarrow> error + real" where
  "py_pow base e = (if base = 0 \<and> e < 0 then Inl ZeroDivisionError else Inr (base powi e))"

text \<open>
  \<^verbatim>\<open>round(x, ndigits)\<close> of a float rounds the exact value of \<open>x\<close> to the nearest multiple
  of \<open>10 ^ -ndigits\<close>, a tie going to the even one.
\<close>

definition round_half_even :: "real \<Rightarrow> int" where
  "round_half_even y =
     (let f = \<lfloor>y\<rfloor>; d = y - of_int f
      in if d < 1 / 2 then f
         else if 1 / 2 < d then f + 1
         else if even f then f else f + 1)"

definition py_round :: "real \<Rightarrow> nat \<Rightarrow> real" where
  "py_round x ndigits = of_int (round_half_even (x * 10 ^ ndigits)) / 10 ^ ndigits"

subsection \<open>The validators\<close>

definition validate_payment :: "py_value \<Rightarrow> error + unit" where
  "validate_payment payment =
     (case num payment of
        None \<Rightarrow> Inl (ValueError ''Payment must be a number'')
      | Some p \<Rightarrow>
          if p \<le> 0 then Inl (ValueError ''Payment must be positive'')
          else if p > of_int MAX_PAYMENT
            then Inl (ValueError ''Payment cannot exceed $1,000,000,000.00'')
          else Inr ())"

definition validate_interest_rate :: "py_value \<Rightarrow> error + unit" where
  "validate_interest_rate rate =
     (case num rate of
        None \<Rightarrow> Inl (ValueError ''Interest rate must be a number'')
      | Some r \<Rightarrow>
          if r < 0 then Inl (ValueError ''Interest rate cannot be negative'')
          else if r > MAX_INTEREST_RATE
            then Inl (ValueError ''Interest rate cannot exceed 100.0%'')
          else Inr ())"

definition validate_periods :: "py_value \<Rightarrow> error + unit" where
  "validate_periods periods =
     (case int_of periods of
        None \<Rightarrow> Inl (ValueError ''Periods must be an integer'')
      | Some n \<Rightarrow>
          if n < MIN_PERIODS then Inl (ValueError ''Periods must be at least 1'')
          else if n > MAX_PERIODS then Inl (ValueError ''Periods cannot exceed 600'')
          else Inr ())"

definition validate_periods_per_year :: "py_value \<Rightarrow> error + unit" where
  "validate_periods_per_year periods_per_year =
     (case int_of periods_per_year of
        None \<Rightarrow> Inl (ValueError ''Periods per year must be an integer'')
      | Some f \<Rightarrow>
          if f \<notin> set [1, 2, 4, 12, 52, 365]
            then Inl (ValueError ''Periods per year must be 1, 2, 4, 12, 52, or 365'')
          else Inr ())"

subsection \<open>The present value\<close>

text \<open>
  The body after the four validator calls: the periodic rate, the zero-rate return,
  the discount factor as the source computes it, and the rounded product.
\<close>

definition present_value_body :: "real \<Rightarrow> real \<Rightarrow> int \<Rightarrow> int \<Rightarrow> error + real" where
  "present_value_body payment annual_rate periods periods_per_year =
     and_then (py_truediv annual_rate (of_int periods_per_year)) (\<lambda>periodic_rate.
       if periodic_rate = 0 then Inr (payment * of_int periods)
       else
         and_then (py_pow (1 + periodic_rate) (- periods)) (\<lambda>pw.
         and_then (py_truediv (2 - pw) periodic_rate) (\<lambda>discount_factor.
           let present_value = payment * discount_factor
           in Inr (py_round present_value 2))))"

definition calculate_present_value ::
  "py_value \<Rightarrow> py_value \<Rightarrow> py_value \<Rightarrow> py_value \<Rightarrow> error + real" where
  "calculate_present_value payment annual_rate periods periods_per_year =
     and_then (validate_payment payment) (\<lambda>_.
     and_then (validate_interest_rate annual_rate) (\<lambda>_.
     and_then (validate_periods periods) (\<lambda>_.
     and_then (validate_periods_per_year periods_per_year) (\<lambda>_.
       case (num payment, num annual_rate, int_of periods, int_of periods_per_year) of
         (Some p, Some a, Some n, Some f) \<Rightarrow> present_value_body p a n f
       | _ \<Rightarrow> Inl TypeError))))"

subsection \<open>Accepted inputs\<close>

text \<open>An argument tuple passes validation when none of the four validators raises.\<close>

definition passes_validation :: "py_value \<Rightarrow> py_value \<Rightarrow> py_value \<Rightarrow> py_value \<Rightarrow> bool" where
  "passes_validation payment annual_rate periods periods_per_year =
     (validate_payment payment = Inr () \<and>
      validate_interest_rate annual_rate = Inr () \<and>
      validate_periods periods = Inr () \<and>
      validate_periods_per_year periods_per_year = Inr ())"

subsection \<open>The documented formula\<close>

text \<open>
  The present value as the specification and the docstring of
  \<^verbatim>\<open>calculate_present_value\<close> give it, for a periodic rate other than zero:
  \<^verbatim>\<open>PV = PMT * (1 - (1 + r)^-n) / r\<close>, rounded to two decimal places. It is written
  from the specification's words, to be compared with what the source computes.
\<close>

definition spec_present_value :: "real \<Rightarrow> real \<Rightarrow> int \<Rightarrow> int \<Rightarrow> real" where
  "spec_present_value payment annual_rate periods periods_per_year =
     (let periodicRate = annual_rate / of_int periods_per_year
      in py_round (payment * (1 - (1 + periodicRate) powi (- periods)) / periodicRate) 2)"

section \<open>Properties of the model\<close>

subsection \<open>Validators and the body\<close>

lemmas validator_defs = validate_payment_def validate_interest_rate_def validate_periods_def
  validate_periods_per_year_def MAX_PAYMENT_def MAX_INTEREST_RATE_def MAX_PERIODS_def
  MIN_PERIODS_def

lemmas calc_defs = calculate_present_value_def present_value_body_def and_then_def
  py_truediv_def py_pow_def validator_defs

lemma validate_payment_ok_iff:
  "validate_payment payment = Inr () \<longleftrightarrow> (\<exists>p. num payment = Some p \<and> 0 < p \<and> p \<le> 1000000000)"
  by (auto simp: validator_defs split: option.splits)

lemma validate_interest_rate_ok_iff:
  "validate_interest_rate rate = Inr () \<longleftrightarrow> (\<exists>a. num rate = Some a \<and> 0 \<le> a \<and> a \<le> 1)"
  by (auto simp: validator_defs split: option.splits)

lemma validate_periods_ok_iff:
  "validate_periods periods = Inr () \<longleftrightarrow> (\<exists>n. int_of periods = Some n \<and> 1 \<le> n \<and> n \<le> 600)"
  by (auto simp: validator_defs split: option.splits)

lemma validate_periods_per_year_ok_iff:
  "validate_periods_per_year ppy = Inr () \<longleftrightarrow>
     (\<exists>f. int_of ppy = Some f \<and> f \<in> {1, 2, 4, 12, 52, 365})"
  by (auto simp: validator_defs split: option.splits)


lemma calculate_after_validation:
  assumes "passes_validation payment annual_rate periods periods_per_year"
  shows "\<exists>p a n f. num payment = Some p \<and> num annual_rate = Some a \<and>
           int_of periods = Some n \<and> int_of periods_per_year = Some f \<and>
           0 < p \<and> p \<le> 1000000000 \<and> 0 \<le> a \<and> a \<le> 1 \<and> 1 \<le> n \<and> n \<le> 600 \<and>
           f \<in> {1, 2, 4, 12, 52, 365} \<and>
           calculate_present_value payment annual_rate periods periods_per_year =
             present_value_body p a n f"
proof -
  from assms obtain p where p: "num payment = Some p" "0 < p" "p \<le> 1000000000"
    unfolding passes_validation_def validate_payment_ok_iff by blast
  from assms obtain a where a: "num annual_rate = Some a" "0 \<le> a" "a \<le> 1"
    unfolding passes_validation_def validate_interest_rate_ok_iff by blast
  from assms obtain n where n: "int_of periods = Some n" "1 \<le> n" "n \<le> 600"
    unfolding passes_validation_def validate_periods_ok_iff by blast
  from assms obtain f where f: "int_of periods_per_year = Some f" "f \<in> {1, 2, 4, 12, 52, 365}"
    unfolding passes_validation_def validate_periods_per_year_ok_iff by blast
  have "calculate_present_value payment annual_rate periods periods_per_year =
          present_value_body p a n f"
    using assms p(1) a(1) n(1) f(1)
    by (simp add: calculate_present_value_def passes_validation_def and_then_def)
  with p a n f show ?thesis by blast
qed

lemma present_value_body_zero_rate:
  "f \<noteq> 0 \<Longrightarrow> present_value_body p 0 n f = Inr (p * of_int n)"
  by (simp add: present_value_body_def py_truediv_def and_then_def)

lemma present_value_body_general:
  assumes "f > 0" "a > 0"
  shows "present_value_body p a n f =
           Inr (py_round (p * ((2 - (1 + a / of_int f) powi (- n)) / (a / of_int f))) 2)"
proof -
  have r: "a / of_int f > 0" using assms by simp
  then have "1 + a / of_int f \<noteq> 0" by linarith
  with r assms show ?thesis
    by (simp add: present_value_body_def py_truediv_def py_pow_def and_then_def)
qed

subsection \<open>Rounding\<close>

lemma round_half_even_eqI:
  assumes "of_int k - 1 / 2 < y" and "y < of_int k + 1 / 2"
  shows "round_half_even y = k"
proof -
  have "\<lfloor>y\<rfloor> = k \<or> \<lfloor>y\<rfloor> = k - 1" using assms by linarith
  then show ?thesis
  proof
    assume f: "\<lfloor>y\<rfloor> = k"
    then have "y - of_int \<lfloor>y\<rfloor> < 1 / 2" using assms(2) by simp
    then show ?thesis using f by (simp add: round_half_even_def Let_def)
  next
    assume f: "\<lfloor>y\<rfloor> = k - 1"
    then have "1 / 2 < y - of_int \<lfloor>y\<rfloor>" using assms(1) by simp
    then show ?thesis using f by (simp add: round_half_even_def Let_def)
  qed
qed

lemma round_half_even_mono:
  assumes "x \<le> y"
  shows "round_half_even x \<le> round_half_even y"
proof -
  have fl: "\<lfloor>x\<rfloor> \<le> \<lfloor>y\<rfloor>" using assms by (rule floor_mono)
  show ?thesis
  proof (cases "\<lfloor>x\<rfloor> = \<lfloor>y\<rfloor>")
    case True
    then have "x - of_int \<lfloor>x\<rfloor> \<le> y - of_int \<lfloor>y\<rfloor>" using assms by simp
    then show ?thesis using True by (auto simp: round_half_even_def Let_def)
  next
    case False
    then have "\<lfloor>x\<rfloor> + 1 \<le> \<lfloor>y\<rfloor>" using fl by simp
    moreover have "round_half_even x \<le> \<lfloor>x\<rfloor> + 1"
      by (simp add: round_half_even_def Let_def)
    moreover have "\<lfloor>y\<rfloor> \<le> round_half_even y"
      by (simp add: round_half_even_def Let_def)
    ultimately show ?thesis by linarith
  qed
qed

lemma round_half_even_of_int: "round_half_even (of_int k) = k"
  by (simp add: round_half_even_def)

lemma py_round_mono: "x \<le> y \<Longrightarrow> py_round x n \<le> py_round y n"
  by (simp add: py_round_def round_half_even_mono divide_right_mono)

lemma py_round_zero: "py_round 0 n = 0"
  by (simp add: py_round_def round_half_even_def)

text \<open>Rounding a rounded value again changes nothing: the general branch is idempotent.\<close>

lemma py_round_idem: "py_round (py_round x 2) 2 = py_round x 2"
  by (simp add: py_round_def round_half_even_of_int)

subsection \<open>Control flow of the function\<close>

lemma calculate_payment_error:
  "validate_payment payment = Inl e \<Longrightarrow>
     calculate_present_value payment annual_rate periods periods_per_year = Inl e"
  by (simp add: calculate_present_value_def and_then_def)

lemma calculate_rate_error:
  "validate_payment payment = Inr () \<Longrightarrow> validate_interest_rate annual_rate = Inl e \<Longrightarrow>
     calculate_present_value payment annual_rate periods periods_per_year = Inl e"
  by (simp add: calculate_present_value_def and_then_def)

lemma calculate_periods_error:
  "validate_payment payment = Inr () \<Longrightarrow> validate_interest_rate annual_rate = Inr () \<Longrightarrow>
   validate_periods periods = Inl e \<Longrightarrow>
     calculate_present_value payment annual_rate periods periods_per_year = Inl e"
  by (simp add: calculate_present_value_def and_then_def)

lemma calculate_frequency_error:
  "validate_payment payment = Inr () \<Longrightarrow> validate_interest_rate annual_rate = Inr () \<Longrightarrow>
   validate_periods periods = Inr () \<Longrightarrow> validate_periods_per_year periods_per_year = Inl e \<Longrightarrow>
     calculate_present_value payment annual_rate periods periods_per_year = Inl e"
  by (simp add: calculate_present_value_def and_then_def)

lemma present_value_body_returns:
  assumes "0 < f" "0 \<le> a"
  shows "\<exists>pv. present_value_body p a n f = Inr pv"
proof (cases "a = 0")
  case True
  then show ?thesis using assms present_value_body_zero_rate [of f p n] by simp
next
  case False
  then have "0 < a" using assms by simp
  then show ?thesis using assms present_value_body_general [of f a p n] by simp
qed

lemma calculate_returns:
  assumes "passes_validation payment annual_rate periods periods_per_year"
  shows "\<exists>pv. calculate_present_value payment annual_rate periods periods_per_year = Inr pv"
proof -
  from calculate_after_validation [OF assms] obtain p a n f where
    h: "0 \<le> a" "f \<in> {1, 2, 4, 12, 52, 365}"
       "calculate_present_value payment annual_rate periods periods_per_year =
          present_value_body p a n f"
    by blast
  from h(2) have "0 < f" by auto
  with h(1) h(3) present_value_body_returns [of f a p n] show ?thesis by simp
qed



subsection \<open>Boundaries of the validators\<close>

lemma boundary_payment_zero:
  "num payment = Some 0 \<Longrightarrow>
     calculate_present_value payment annual_rate periods periods_per_year =
       Inl (ValueError ''Payment must be positive'')"
  by (simp add: calculate_payment_error validate_payment_def)

lemma boundary_payment_above:
  "num payment = Some x \<Longrightarrow> of_int MAX_PAYMENT < x \<Longrightarrow>
     calculate_present_value payment annual_rate periods periods_per_year =
       Inl (ValueError ''Payment cannot exceed $1,000,000,000.00'')"
  by (simp add: calculate_payment_error validate_payment_def MAX_PAYMENT_def)

lemma boundary_payment_max:
  "num payment = Some (of_int MAX_PAYMENT) \<Longrightarrow> validate_payment payment = Inr ()"
  by (simp add: validate_payment_def MAX_PAYMENT_def)

lemma boundary_rate_max:
  "num annual_rate = Some MAX_INTEREST_RATE \<Longrightarrow> validate_interest_rate annual_rate = Inr ()"
  by (simp add: validate_interest_rate_def MAX_INTEREST_RATE_def)

lemma boundary_rate_above:
  "validate_payment payment = Inr () \<Longrightarrow> num annual_rate = Some x \<Longrightarrow>
   MAX_INTEREST_RATE < x \<Longrightarrow>
     calculate_present_value payment annual_rate periods periods_per_year =
       Inl (ValueError ''Interest rate cannot exceed 100.0%'')"
  by (simp add: calculate_rate_error validate_interest_rate_def MAX_INTEREST_RATE_def)

lemma boundary_rate_negative:
  "validate_payment payment = Inr () \<Longrightarrow> num annual_rate = Some x \<Longrightarrow> x < 0 \<Longrightarrow>
     calculate_present_value payment annual_rate periods periods_per_year =
       Inl (ValueError ''Interest rate cannot be negative'')"
  by (simp add: calculate_rate_error validate_interest_rate_def)

lemma boundary_periods_ends:
  "validate_periods (PyInt MIN_PERIODS) = Inr ()" "validate_periods (PyInt MAX_PERIODS) = Inr ()"
  by (simp_all add: validate_periods_def MIN_PERIODS_def MAX_PERIODS_def)

lemma boundary_periods_below:
  "validate_payment payment = Inr () \<Longrightarrow> validate_interest_rate annual_rate = Inr () \<Longrightarrow>
   int_of periods = Some k \<Longrightarrow> k < MIN_PERIODS \<Longrightarrow>
     calculate_present_value payment annual_rate periods periods_per_year =
       Inl (ValueError ''Periods must be at least 1'')"
  by (simp add: calculate_periods_error validate_periods_def)

lemma boundary_periods_above:
  "validate_payment payment = Inr () \<Longrightarrow> validate_interest_rate annual_rate = Inr () \<Longrightarrow>
   int_of periods = Some k \<Longrightarrow> MAX_PERIODS < k \<Longrightarrow>
     calculate_present_value payment annual_rate periods periods_per_year =
       Inl (ValueError ''Periods cannot exceed 600'')"
  by (simp add: calculate_periods_error validate_periods_def MIN_PERIODS_def MAX_PERIODS_def)

lemma boundary_frequency:
  "validate_payment payment = Inr () \<Longrightarrow> validate_interest_rate annual_rate = Inr () \<Longrightarrow>
   validate_periods periods = Inr () \<Longrightarrow> int_of periods_per_year = Some k \<Longrightarrow>
   k \<notin> {1, 2, 4, 12, 52, 365} \<Longrightarrow>
     calculate_present_value payment annual_rate periods periods_per_year =
       Inl (ValueError ''Periods per year must be 1, 2, 4, 12, 52, or 365'')"
  by (simp add: calculate_frequency_error validate_periods_per_year_def)

lemma calculate_returns_validators:
  "validate_payment payment = Inr () \<Longrightarrow> validate_interest_rate annual_rate = Inr () \<Longrightarrow>
   validate_periods periods = Inr () \<Longrightarrow> validate_periods_per_year periods_per_year = Inr () \<Longrightarrow>
     \<exists>pv. calculate_present_value payment annual_rate periods periods_per_year = Inr pv"
  by (rule calculate_returns) (simp add: passes_validation_def)

subsection \<open>The two branches on accepted inputs\<close>

lemma discount_power_bounds:
  fixes r :: real and n :: int
  assumes "0 \<le> r" "0 \<le> n"
  shows "0 < (1 + r) powi (- n)" and "(1 + r) powi (- n) \<le> 1"
proof -
  have pos: "0 < 1 + r" using assms by simp
  have ge: "1 \<le> (1 + r) ^ nat n" using assms by (simp add: one_le_power)
  have eq: "(1 + r) powi (- n) = inverse ((1 + r) ^ nat n)"
    using assms by (simp add: power_int_minus power_int_def power_inverse)
  show "0 < (1 + r) powi (- n)" using pos by (simp add: eq)
  show "(1 + r) powi (- n) \<le> 1" using ge by (simp add: eq inverse_le_1_iff)
qed

lemma calculate_zero_rate:
  assumes "passes_validation payment annual_rate periods periods_per_year"
    and "num payment = Some p" "num annual_rate = Some 0" "int_of periods = Some n"
  shows "calculate_present_value payment annual_rate periods periods_per_year =
           Inr (p * of_int n)"
proof -
  from calculate_after_validation [OF assms(1)] assms(2-4) obtain f where
    f: "f \<in> {1, 2, 4, 12, 52, 365}"
      "calculate_present_value payment annual_rate periods periods_per_year =
         present_value_body p 0 n f"
    by auto
  from f(1) have "f \<noteq> 0" by auto
  then show ?thesis using f(2) by (simp add: present_value_body_zero_rate)
qed

lemma calculate_general:
  assumes "passes_validation payment annual_rate periods periods_per_year"
    and "num payment = Some p" "num annual_rate = Some a" "int_of periods = Some n"
    and "int_of periods_per_year = Some f" "a \<noteq> 0"
  shows "0 < a / of_int f"
    and "calculate_present_value payment annual_rate periods periods_per_year =
           Inr (py_round (p * ((2 - (1 + a / of_int f) powi (- n)) / (a / of_int f))) 2)"
proof -
  from calculate_after_validation [OF assms(1)] assms(2-5) have
    h: "0 \<le> a" "f \<in> {1, 2, 4, 12, 52, 365}"
      "calculate_present_value payment annual_rate periods periods_per_year =
         present_value_body p a n f"
    by auto
  from h(2) have fpos: "0 < f" by auto
  from h(1) assms(6) have apos: "0 < a" by simp
  show "0 < a / of_int f" using fpos apos by simp
  show "calculate_present_value payment annual_rate periods periods_per_year =
           Inr (py_round (p * ((2 - (1 + a / of_int f) powi (- n)) / (a / of_int f))) 2)"
    using h(3) present_value_body_general [OF fpos apos] by simp
qed

lemma discount_factor_at_least_one:
  fixes r :: real and n :: int
  assumes "0 < r" "r \<le> 1" "0 \<le> n"
  shows "1 \<le> (2 - (1 + r) powi (- n)) / r"
proof -
  have "(1 + r) powi (- n) \<le> 1" using assms by (simp add: discount_power_bounds)
  then have "r \<le> 2 - (1 + r) powi (- n)" using assms(2) by linarith
  then show ?thesis using assms(1) by (simp add: le_divide_eq)
qed

lemma py_round_one_cent: "py_round (1 / 100) 2 = 1 / 100"
  by (simp add: py_round_def round_half_even_def)

subsection \<open>Evaluations\<close>

text \<open>
  The input of \<^verbatim>\<open>test_basic_calculation\<close>, as the source computes it and as the documented
  formula gives it.
\<close>

lemma code_value_basic:
  "calculate_present_value (PyInt 1000) (PyFloat (5 / 100)) (PyInt 60) (PyInt 12) =
     Inr (29299071 / 100)"
proof -
  have "round_half_even
          (1000 * ((2 - (1 + (5 / 100) / 12) powi (- 60)) / ((5 / 100) / 12)) * 10 ^ 2) =
        29299071"
    by (rule round_half_even_eqI) (simp_all add: power_int_minus power_divide)
  then show ?thesis
    by (simp add: calc_defs py_round_def)
qed

lemma spec_value_basic: "spec_present_value 1000 (5 / 100) 60 12 = 5299071 / 100"
proof -
  have "round_half_even
          (1000 * (1 - (1 + (5 / 100) / 12) powi (- 60)) / ((5 / 100) / 12) * 10 ^ 2) =
        5299071"
    by (rule round_half_even_eqI) (simp_all add: power_int_minus power_divide)
  then show ?thesis
    by (simp add: spec_present_value_def py_round_def)
qed

text \<open>
  The inputs of \<^verbatim>\<open>test_proportional_payment\<close>: in exact arithmetic the result for the
  doubled payment and twice the result for the payment differ by exactly one cent.
\<close>

lemma proportional_payment_values:
  "calculate_present_value (PyInt 1000) (PyFloat (5 / 100)) (PyInt 60) (PyInt 12) =
     Inr (29299071 / 100) \<and>
   calculate_present_value (PyInt 2000) (PyFloat (5 / 100)) (PyInt 60) (PyInt 12) =
     Inr (58598141 / 100)"
proof -
  have "round_half_even
          (2000 * ((2 - (1 + (5 / 100) / 12) powi (- 60)) / ((5 / 100) / 12)) * 10 ^ 2) =
        58598141"
    by (rule round_half_even_eqI) (simp_all add: power_int_minus power_divide)
  then have "calculate_present_value (PyInt 2000) (PyFloat (5 / 100)) (PyInt 60) (PyInt 12) =
     Inr (58598141 / 100)"
    by (simp add: calc_defs py_round_def)
  with code_value_basic show ?thesis by (rule conjI)
qed

text \<open>Doubling a payment below a cent can move the rounded result from 0 to a whole cent.\<close>

lemma linearity_bound_attained:
  "calculate_present_value (PyFloat (1 / 512)) (PyFloat 1) (PyInt 1) (PyInt 1) = Inr 0 \<and>
   calculate_present_value (PyFloat (2 * (1 / 512))) (PyFloat 1) (PyInt 1) (PyInt 1) =
     Inr (1 / 100)"
  by (simp add: calc_defs py_round_def round_half_even_def power_int_minus)

text \<open>Two valid rates can give the same value: payment 1, one period, one period per year.\<close>

lemma equal_values_at_two_rates:
  "passes_validation (PyInt 1) (PyFloat (999 / 1000)) (PyInt 1) (PyInt 1) \<and>
   passes_validation (PyInt 1) (PyFloat 1) (PyInt 1) (PyInt 1) \<and>
   calculate_present_value (PyInt 1) (PyFloat (999 / 1000)) (PyInt 1) (PyInt 1) = Inr (3 / 2) \<and>
   calculate_present_value (PyInt 1) (PyFloat 1) (PyInt 1) (PyInt 1) = Inr (3 / 2)"
proof -
  have "round_half_even (1 * ((2 - (1 + (999 / 1000) / 1) powi (- 1)) / ((999 / 1000) / 1)) * 10 ^ 2)
          = 150"
    by (rule round_half_even_eqI) (simp_all add: power_int_minus)
  then have "calculate_present_value (PyInt 1) (PyFloat (999 / 1000)) (PyInt 1) (PyInt 1) =
      Inr (3 / 2)"
    by (simp add: calc_defs py_round_def)
  moreover have "calculate_present_value (PyInt 1) (PyFloat 1) (PyInt 1) (PyInt 1) = Inr (3 / 2)"
    by (simp add: calc_defs py_round_def round_half_even_def power_int_minus)
  moreover have "passes_validation (PyInt 1) (PyFloat (999 / 1000)) (PyInt 1) (PyInt 1)"
    "passes_validation (PyInt 1) (PyFloat 1) (PyInt 1) (PyInt 1)"
    by (simp_all add: passes_validation_def validator_defs)
  ultimately show ?thesis by simp
qed

text \<open>
  The value can exceed the undiscounted sum, and rises when the rate leaves zero: the
  input of \<^verbatim>\<open>test_high_interest_rate\<close>, which expects a value below \<open>1000 * 60\<close>.
\<close>

lemma above_undiscounted_sum:
  "calculate_present_value (PyInt 1000) (PyFloat (20 / 100)) (PyInt 60) (PyInt 12) =
     Inr (9774456 / 100) \<and>
   calculate_present_value (PyInt 1000) (PyFloat 0) (PyInt 60) (PyInt 12) = Inr 60000"
proof -
  have "round_half_even
          (1000 * ((2 - (1 + (20 / 100) / 12) powi (- 60)) / ((20 / 100) / 12)) * 10 ^ 2) =
        9774456"
    by (rule round_half_even_eqI) (simp_all add: power_int_minus power_divide)
  then have "calculate_present_value (PyInt 1000) (PyFloat (20 / 100)) (PyInt 60) (PyInt 12) =
     Inr (9774456 / 100)"
    by (simp add: calc_defs py_round_def)
  moreover have "calculate_present_value (PyInt 1000) (PyFloat 0) (PyInt 60) (PyInt 12) =
     Inr 60000"
    by (simp add: calc_defs)
  ultimately show ?thesis by simp
qed

section \<open>The claims\<close>

text \<open>
  C1. For every input that passes validation with a periodic rate above zero the
  function is to return \<^verbatim>\<open>Payment * (1 - (1 + periodicRate)^(-Periods)) / periodicRate\<close>
  rounded to two decimal places. The source computes \<^verbatim>\<open>2 - ...\<close> where the formula has
  \<^verbatim>\<open>1 - ...\<close>: at payment 1000, annual rate 0.05, 60 periods, 12 periods per year it
  returns 292990.71, and the documented formula gives 52990.71.
\<close>

theorem present_value_formula_differs:
  "calculate_present_value (PyInt 1000) (PyFloat (5 / 100)) (PyInt 60) (PyInt 12) =
     Inr (29299071 / 100) \<and>
   spec_present_value 1000 (5 / 100) 60 12 = 5299071 / 100"
  using code_value_basic spec_value_basic by simp

text \<open>
  C2. The call \<^verbatim>\<open>calculate_present_value(1000, 0.05, 60, 12)\<close> is to return a value within
  1.0 of 52990.70. It returns a value more than 240000 away from it.
\<close>

theorem basic_calculation_out_of_tolerance:
  "\<exists>pv. calculate_present_value (PyInt 1000) (PyFloat (5 / 100)) (PyInt 60) (PyInt 12) = Inr pv \<and>
        240000 < \<bar>pv - 5299070 / 100\<bar>"
proof (intro exI conjI)
  show "calculate_present_value (PyInt 1000) (PyFloat (5 / 100)) (PyInt 60) (PyInt 12) =
          Inr (29299071 / 100)"
    by (rule code_value_basic)
  show "240000 < \<bar>29299071 / 100 - 5299070 / (100::real)\<bar>" by simp
qed

text \<open>
  C3. At annual rate zero the result is to equal \<^verbatim>\<open>round(p * n, 2)\<close>. The zero-rate
  branch returns the product as it is: at payment 0.125 and one period it returns 0.125,
  and \<^verbatim>\<open>round(0.125, 2)\<close> is 0.12.
\<close>

theorem zero_rate_not_rounded:
  "calculate_present_value (PyFloat (1 / 8)) (PyInt 0) (PyInt 1) (PyInt 12) = Inr (1 / 8) \<and>
   py_round (1 / 8 * 1) 2 = 12 / 100"
  by (simp add: calc_defs py_round_def round_half_even_def)

text \<open>
  C4. Boundaries of validation. A payment of exactly 0 raises the error of a payment that
  is not positive; a payment of exactly \<open>MAX_PAYMENT\<close> is accepted and any payment
  above it raises. A rate of exactly \<open>MAX_INTEREST_RATE\<close> is accepted, any rate above it
  raises and any negative rate raises. Periods of exactly \<open>MIN_PERIODS\<close> and exactly
  \<open>MAX_PERIODS\<close> are accepted, periods below the one (such as 0) and above the other
  (such as 601) raise. Any integer frequency outside 1, 2, 4, 12, 52, 365 raises the error
  of an unsupported frequency. An argument is accepted or rejected with the arguments
  before it valid, and a call returns a value with the other arguments valid.
\<close>

theorem validation_boundaries:
  "(\<forall>payment annual_rate periods periods_per_year.
      num payment = Some 0 \<longrightarrow>
      calculate_present_value payment annual_rate periods periods_per_year =
        Inl (ValueError ''Payment must be positive'')) \<and>
   (\<forall>payment annual_rate periods periods_per_year.
      num payment = Some (of_int MAX_PAYMENT) \<and> validate_interest_rate annual_rate = Inr () \<and>
      validate_periods periods = Inr () \<and> validate_periods_per_year periods_per_year = Inr () \<longrightarrow>
      (\<exists>pv. calculate_present_value payment annual_rate periods periods_per_year = Inr pv)) \<and>
   (\<forall>payment x annual_rate periods periods_per_year.
      num payment = Some x \<and> of_int MAX_PAYMENT < x \<longrightarrow>
      calculate_present_value payment annual_rate periods periods_per_year =
        Inl (ValueError ''Payment cannot exceed $1,000,000,000.00'')) \<and>
   (\<forall>payment annual_rate periods periods_per_year.
      validate_payment payment = Inr () \<and> num annual_rate = Some MAX_INTEREST_RATE \<and>
      validate_periods periods = Inr () \<and> validate_periods_per_year periods_per_year = Inr () \<longrightarrow>
      (\<exists>pv. calculate_present_value payment annual_rate periods periods_per_year = Inr pv)) \<and>
   (\<forall>payment annual_rate x periods periods_per_year.
      validate_payment payment = Inr () \<and> num annual_rate = Some x \<and> MAX_INTEREST_RATE < x \<longrightarrow>
      calculate_present_value payment annual_rate periods periods_per_year =
        Inl (ValueError ''Interest rate cannot exceed 100.0%'')) \<and>
   (\<forall>payment annual_rate x periods periods_per_year.
      validate_payment payment = Inr () \<and> num annual_rate = Some x \<and> x < 0 \<longrightarrow>
      calculate_present_value payment annual_rate periods periods_per_year =
        Inl (ValueError ''Interest rate cannot be negative'')) \<and>
   (\<forall>payment annual_rate periods_per_year.
      validate_payment payment = Inr () \<and> validate_interest_rate annual_rate = Inr () \<and>
      validate_periods_per_year periods_per_year = Inr () \<longrightarrow>
      (\<exists>pv. calculate_present_value payment annual_rate (PyInt MIN_PERIODS) periods_per_year =
             Inr pv) \<and>
      (\<exists>pv. calculate_present_value payment annual_rate (PyInt MAX_PERIODS) periods_per_year =
             Inr pv)) \<and>
   (\<forall>payment annual_rate periods k periods_per_year.
      validate_payment payment = Inr () \<and> validate_interest_rate annual_rate = Inr () \<and>
      int_of periods = Some k \<and> k < MIN_PERIODS \<longrightarrow>
      calculate_present_value payment annual_rate periods periods_per_year =
        Inl (ValueError ''Periods must be at least 1'')) \<and>
   (\<forall>payment annual_rate periods k periods_per_year.
      validate_payment payment = Inr () \<and> validate_interest_rate annual_rate = Inr () \<and>
      int_of periods = Some k \<and> MAX_PERIODS < k \<longrightarrow>
      calculate_present_value payment annual_rate periods periods_per_year =
        Inl (ValueError ''Periods cannot exceed 600'')) \<and>
   (\<forall>payment annual_rate periods periods_per_year k.
      validate_payment payment = Inr () \<and> validate_interest_rate annual_rate = Inr () \<and>
      validate_periods periods = Inr () \<and> int_of periods_per_year = Some k \<and>
      k \<notin> {1, 2, 4, 12, 52, 365} \<longrightarrow>
      calculate_present_value payment annual_rate periods periods_per_year =
        Inl (ValueError ''Periods per year must be 1, 2, 4, 12, 52, or 365''))"
proof (intro conjI allI impI; (elim conjE)?)
  fix payment annual_rate periods periods_per_year :: py_value
  assume "num payment = Some 0"
  then show "calculate_present_value payment annual_rate periods periods_per_year =
        Inl (ValueError ''Payment must be positive'')"
    by (rule boundary_payment_zero)
next
  fix payment annual_rate periods periods_per_year :: py_value
  assume "num payment = Some (of_int MAX_PAYMENT)" "validate_interest_rate annual_rate = Inr ()"
    "validate_periods periods = Inr ()" "validate_periods_per_year periods_per_year = Inr ()"
  then show "\<exists>pv. calculate_present_value payment annual_rate periods periods_per_year = Inr pv"
    by (simp add: calculate_returns_validators boundary_payment_max)
next
  fix payment annual_rate periods periods_per_year :: py_value and x :: real
  assume "num payment = Some x" "of_int MAX_PAYMENT < x"
  then show "calculate_present_value payment annual_rate periods periods_per_year =
        Inl (ValueError ''Payment cannot exceed $1,000,000,000.00'')"
    by (rule boundary_payment_above)
next
  fix payment annual_rate periods periods_per_year :: py_value
  assume "validate_payment payment = Inr ()" "num annual_rate = Some MAX_INTEREST_RATE"
    "validate_periods periods = Inr ()" "validate_periods_per_year periods_per_year = Inr ()"
  then show "\<exists>pv. calculate_present_value payment annual_rate periods periods_per_year = Inr pv"
    by (simp add: calculate_returns_validators boundary_rate_max)
next
  fix payment annual_rate periods periods_per_year :: py_value and x :: real
  assume "validate_payment payment = Inr ()" "num annual_rate = Some x" "MAX_INTEREST_RATE < x"
  then show "calculate_present_value payment annual_rate periods periods_per_year =
        Inl (ValueError ''Interest rate cannot exceed 100.0%'')"
    by (rule boundary_rate_above)
next
  fix payment annual_rate periods periods_per_year :: py_value and x :: real
  assume "validate_payment payment = Inr ()" "num annual_rate = Some x" "x < 0"
  then show "calculate_present_value payment annual_rate periods periods_per_year =
        Inl (ValueError ''Interest rate cannot be negative'')"
    by (rule boundary_rate_negative)
next
  fix payment annual_rate periods_per_year :: py_value
  assume "validate_payment payment = Inr ()" "validate_interest_rate annual_rate = Inr ()"
    "validate_periods_per_year periods_per_year = Inr ()"
  then show "\<exists>pv. calculate_present_value payment annual_rate (PyInt MIN_PERIODS) periods_per_year =
             Inr pv"
    by (simp add: calculate_returns_validators boundary_periods_ends)
next
  fix payment annual_rate periods_per_year :: py_value
  assume "validate_payment payment = Inr ()" "validate_interest_rate annual_rate = Inr ()"
    "validate_periods_per_year periods_per_year = Inr ()"
  then show "\<exists>pv. calculate_present_value payment annual_rate (PyInt MAX_PERIODS) periods_per_year =
             Inr pv"
    by (simp add: calculate_returns_validators boundary_periods_ends)
next
  fix payment annual_rate periods periods_per_year :: py_value and k :: int
  assume "validate_payment payment = Inr ()" "validate_interest_rate annual_rate = Inr ()"
    "int_of periods = Some k" "k < MIN_PERIODS"
  then show "calculate_present_value payment annual_rate periods periods_per_year =
        Inl (ValueError ''Periods must be at least 1'')"
    by (rule boundary_periods_below)
next
  fix payment annual_rate periods periods_per_year :: py_value and k :: int
  assume "validate_payment payment = Inr ()" "validate_interest_rate annual_rate = Inr ()"
    "int_of periods = Some k" "MAX_PERIODS < k"
  then show "calculate_present_value payment annual_rate periods periods_per_year =
        Inl (ValueError ''Periods cannot exceed 600'')"
    by (rule boundary_periods_above)
next
  fix payment annual_rate periods periods_per_year :: py_value and k :: int
  assume "validate_payment payment = Inr ()" "validate_interest_rate annual_rate = Inr ()"
    "validate_periods periods = Inr ()" "int_of periods_per_year = Some k"
    "k \<notin> {1, 2, 4, 12, 52, 365}"
  then show "calculate_present_value payment annual_rate periods periods_per_year =
        Inl (ValueError ''Periods per year must be 1, 2, 4, 12, 52, or 365'')"
    by (rule boundary_frequency)
qed

theorem validation_boundaries_witness:
  "calculate_present_value (PyInt 0) (PyFloat (5 / 100)) (PyInt 60) (PyInt 12) =
     Inl (ValueError ''Payment must be positive'') \<and>
   (\<exists>pv. calculate_present_value (PyInt 1000000000) (PyFloat (5 / 100)) (PyInt 60) (PyInt 12) =
      Inr pv) \<and>
   calculate_present_value (PyFloat (1000000000 + 1 / 100)) (PyFloat (5 / 100)) (PyInt 60)
       (PyInt 12) =
     Inl (ValueError ''Payment cannot exceed $1,000,000,000.00'') \<and>
   (\<exists>pv. calculate_present_value (PyInt 1000) (PyFloat 1) (PyInt 60) (PyInt 12) = Inr pv) \<and>
   calculate_present_value (PyInt 1000) (PyFloat (3 / 2)) (PyInt 60) (PyInt 12) =
     Inl (ValueError ''Interest rate cannot exceed 100.0%'') \<and>
   calculate_present_value (PyInt 1000) (PyFloat (- (5 / 100))) (PyInt 60) (PyInt 12) =
     Inl (ValueError ''Interest rate cannot be negative'') \<and>
   (\<exists>pv. calculate_present_value (PyInt 1000) (PyFloat (5 / 100)) (PyInt 1) (PyInt 12) = Inr pv) \<and>
   (\<exists>pv. calculate_present_value (PyInt 1000) (PyFloat (5 / 100)) (PyInt 600) (PyInt 12) =
      Inr pv) \<and>
   calculate_present_value (PyInt 1000) (PyFloat (5 / 100)) (PyInt 0) (PyInt 12) =
     Inl (ValueError ''Periods must be at least 1'') \<and>
   calculate_present_value (PyInt 1000) (PyFloat (5 / 100)) (PyInt 601) (PyInt 12) =
     Inl (ValueError ''Periods cannot exceed 600'') \<and>
   calculate_present_value (PyInt 1000) (PyFloat (5 / 100)) (PyInt 60) (PyInt 7) =
     Inl (ValueError ''Periods per year must be 1, 2, 4, 12, 52, or 365'')"
proof -
  note b1 = validation_boundaries [THEN conjunct1, rule_format]
    and b2 = validation_boundaries [THEN conjunct2, THEN conjunct1, rule_format]
    and b3 = validation_boundaries [THEN conjunct2, THEN conjunct2, THEN conjunct1, rule_format]
    and b4 = validation_boundaries [THEN conjunct2, THEN conjunct2, THEN conjunct2, THEN conjunct1, rule_format]
    and b5 = validation_boundaries [THEN conjunct2, THEN conjunct2, THEN conjunct2, THEN conjunct2, THEN conjunct1, rule_format]
    and b6 = validation_boundaries [THEN conjunct2, THEN conjunct2, THEN conjunct2, THEN conjunct2, THEN conjunct2, THEN conjunct1, rule_format]
    and b7 = validation_boundaries [THEN conjunct2, THEN conjunct2, THEN conjunct2, THEN conjunct2, THEN conjunct2, THEN conjunct2, THEN conjunct1, rule_format]
    and b8 = validation_boundaries [THEN conjunct2, THEN conjunct2, THEN conjunct2, THEN conjunct2, THEN conjunct2, THEN conjunct2, THEN conjunct2, THEN conjunct1, rule_format]
    and b9 = validation_boundaries [THEN conjunct2, THEN conjunct2, THEN conjunct2, THEN conjunct2, THEN conjunct2, THEN conjunct2, THEN conjunct2, THEN conjunct2, THEN conjunct1, rule_format]
    and b10 = validation_boundaries [THEN conjunct2, THEN conjunct2, THEN conjunct2, THEN conjunct2, THEN conjunct2, THEN conjunct2, THEN conjunct2, THEN conjunct2, THEN conjunct2, rule_format]
  have vp: "validate_payment (PyInt 1000) = Inr ()"
    and vr: "validate_interest_rate (PyFloat (5 / 100)) = Inr ()"
    and vn: "validate_periods (PyInt 60) = Inr ()"
    and vf: "validate_periods_per_year (PyInt 12) = Inr ()"
    by (simp_all add: validator_defs)
  have c1: "calculate_present_value (PyInt 0) (PyFloat (5 / 100)) (PyInt 60) (PyInt 12) =
      Inl (ValueError ''Payment must be positive'')"
    by (rule b1) simp
  have c2: "\<exists>pv. calculate_present_value (PyInt 1000000000) (PyFloat (5 / 100)) (PyInt 60)
      (PyInt 12) = Inr pv"
    by (rule b2) (insert vr vn vf, simp add: MAX_PAYMENT_def)
  have c3: "calculate_present_value (PyFloat (1000000000 + 1 / 100)) (PyFloat (5 / 100))
      (PyInt 60) (PyInt 12) = Inl (ValueError ''Payment cannot exceed $1,000,000,000.00'')"
    by (rule b3 [where x = "1000000000 + 1 / 100"]) (simp add: MAX_PAYMENT_def)
  have c4: "\<exists>pv. calculate_present_value (PyInt 1000) (PyFloat 1) (PyInt 60) (PyInt 12) = Inr pv"
    by (rule b4) (insert vp vn vf, simp add: MAX_INTEREST_RATE_def)
  have c5: "calculate_present_value (PyInt 1000) (PyFloat (3 / 2)) (PyInt 60) (PyInt 12) =
      Inl (ValueError ''Interest rate cannot exceed 100.0%'')"
    by (rule b5 [where x = "3 / 2"]) (insert vp, simp add: MAX_INTEREST_RATE_def)
  have c6: "calculate_present_value (PyInt 1000) (PyFloat (- (5 / 100))) (PyInt 60) (PyInt 12) =
      Inl (ValueError ''Interest rate cannot be negative'')"
    by (rule b6 [where x = "- (5 / 100)"]) (insert vp, simp)
  have c78: "(\<exists>pv. calculate_present_value (PyInt 1000) (PyFloat (5 / 100)) (PyInt MIN_PERIODS)
        (PyInt 12) = Inr pv) \<and>
      (\<exists>pv. calculate_present_value (PyInt 1000) (PyFloat (5 / 100)) (PyInt MAX_PERIODS)
        (PyInt 12) = Inr pv)"
    by (rule b7) (insert vp vr vf, simp)
  have c9: "calculate_present_value (PyInt 1000) (PyFloat (5 / 100)) (PyInt 0) (PyInt 12) =
      Inl (ValueError ''Periods must be at least 1'')"
    by (rule b8 [where k = 0]) (insert vp vr, simp add: MIN_PERIODS_def)
  have c10: "calculate_present_value (PyInt 1000) (PyFloat (5 / 100)) (PyInt 601) (PyInt 12) =
      Inl (ValueError ''Periods cannot exceed 600'')"
    by (rule b9 [where k = 601]) (insert vp vr, simp add: MAX_PERIODS_def)
  have c11: "calculate_present_value (PyInt 1000) (PyFloat (5 / 100)) (PyInt 60) (PyInt 7) =
      Inl (ValueError ''Periods per year must be 1, 2, 4, 12, 52, or 365'')"
    by (rule b10 [where k = 7]) (insert vp vr vn, simp)
  from c78 have c7: "\<exists>pv. calculate_present_value (PyInt 1000) (PyFloat (5 / 100)) (PyInt 1)
        (PyInt 12) = Inr pv"
    and c8: "\<exists>pv. calculate_present_value (PyInt 1000) (PyFloat (5 / 100)) (PyInt 600)
        (PyInt 12) = Inr pv"
    by (simp_all add: MIN_PERIODS_def MAX_PERIODS_def)
  from c1 c2 c3 c4 c5 c6 c7 c8 c9 c10 c11 show ?thesis by blast
qed



text \<open>
  C8. The returned value is to equal itself rounded to two decimal places, on the
  zero-rate branch too. At payment 0.125, rate 0.0 and three periods the function returns
  0.375, which rounding changes.
\<close>

theorem zero_rate_result_not_idempotent:
  "\<exists>pv. calculate_present_value (PyFloat (1 / 8)) (PyFloat 0) (PyInt 3) (PyInt 12) = Inr pv \<and>
        py_round pv 2 \<noteq> pv"
proof (intro exI conjI)
  show "calculate_present_value (PyFloat (1 / 8)) (PyFloat 0) (PyInt 3) (PyInt 12) = Inr (3 / 8)"
    by (simp add: calc_defs)
  have "py_round (3 / 8) 2 = 38 / 100"
    by (simp add: py_round_def round_half_even_def)
  then show "py_round (3 / 8) 2 \<noteq> 3 / 8" by simp
qed

text \<open>
  C10, as stated: every input that passes validation gives a strictly positive value.
  On the general branch the rounding can give 0: payment \<open>1 / 1024\<close>, rate 1.0, one
  period, one period per year.
\<close>

theorem rounds_to_zero_counterexample:
  "passes_validation (PyFloat (1 / 1024)) (PyFloat 1) (PyInt 1) (PyInt 1) \<and>
   calculate_present_value (PyFloat (1 / 1024)) (PyFloat 1) (PyInt 1) (PyInt 1) = Inr 0"
  by (simp add: passes_validation_def calc_defs py_round_def round_half_even_def
      power_int_minus)

text \<open>
  C10, amended: for every input whose payment is a number above 0 and at most
  \<open>MAX_PAYMENT\<close>, whose rate is a number from 0 to \<open>MAX_INTEREST_RATE\<close>, whose periods
  are an integer from \<open>MIN_PERIODS\<close> to \<open>MAX_PERIODS\<close> and whose frequency is one of the
  allowed integers, the function returns a value that is not negative, and that is
  strictly positive, on both branches, when the payment is at least one cent.
\<close>

theorem present_value_positive_from_one_cent:
  assumes "num payment = Some p" and "0 < p" and "p \<le> of_int MAX_PAYMENT"
    and "num annual_rate = Some a" and "0 \<le> a" and "a \<le> MAX_INTEREST_RATE"
    and "int_of periods = Some n" and "MIN_PERIODS \<le> n" and "n \<le> MAX_PERIODS"
    and "int_of periods_per_year = Some f" and "f \<in> set [1, 2, 4, 12, 52, 365]"
  shows "\<exists>pv. calculate_present_value payment annual_rate periods periods_per_year = Inr pv \<and>
           0 \<le> pv \<and> (1 / 100 \<le> p \<longrightarrow> 0 < pv)"
proof -
  have valid: "passes_validation payment annual_rate periods periods_per_year"
    using assms by (simp add: passes_validation_def validator_defs)
  have n1: "1 \<le> n" using assms(8) by (simp add: MIN_PERIODS_def)
  have fpos: "1 \<le> f" using assms(11) by auto
  show ?thesis
  proof (cases "a = 0")
    case True
    have "calculate_present_value payment annual_rate periods periods_per_year =
            Inr (p * of_int n)"
      using valid assms(1,4,7) True by (simp add: calculate_zero_rate)
    moreover have "0 < p * of_int n" using assms(2) n1 by simp
    ultimately show ?thesis by simp
  next
    case False
    note g = calculate_general [OF valid assms(1,4,7,10) False]
    let ?r = "a / of_int f"
    let ?x = "p * ((2 - (1 + ?r) powi (- n)) / ?r)"
    have a1: "a \<le> 1" using assms(6) by (simp add: MAX_INTEREST_RATE_def)
    have "?r \<le> a" using assms(5) fpos by (simp add: divide_le_eq mult_le_cancel_left1)
    then have r1: "?r \<le> 1" using a1 by linarith
    have df: "1 \<le> (2 - (1 + ?r) powi (- n)) / ?r"
      using g(1) r1 n1 by (intro discount_factor_at_least_one) simp_all
    have "p * 1 \<le> ?x" using df assms(2) by (intro mult_left_mono) simp_all
    then have px: "p \<le> ?x" by simp
    then have "0 \<le> ?x" using assms(2) by linarith
    then have "py_round 0 2 \<le> py_round ?x 2" by (rule py_round_mono)
    then have nonneg: "0 \<le> py_round ?x 2" by (simp add: py_round_zero)
    have pos: "0 < py_round ?x 2" if "1 / 100 \<le> p"
    proof -
      from that px have "1 / 100 \<le> ?x" by linarith
      then have "py_round (1 / 100) 2 \<le> py_round ?x 2" by (rule py_round_mono)
      then show ?thesis by (simp add: py_round_one_cent)
    qed
    from g(2) nonneg pos show ?thesis by simp
  qed
qed

theorem present_value_positive_from_one_cent_witness:
  "\<exists>pv. calculate_present_value (PyFloat (1 / 100)) (PyFloat (5 / 100)) (PyInt 60) (PyInt 12) =
      Inr pv \<and> 0 < pv"
proof -
  have "\<exists>pv. calculate_present_value (PyFloat (1 / 100)) (PyFloat (5 / 100)) (PyInt 60)
      (PyInt 12) = Inr pv \<and> 0 \<le> pv \<and> ((1 / 100 :: real) \<le> 1 / 100 \<longrightarrow> 0 < pv)"
    by (rule present_value_positive_from_one_cent [where p = "1 / 100" and a = "5 / 100"
          and n = 60 and f = 12])
      (simp_all add: MAX_PAYMENT_def MAX_INTEREST_RATE_def MIN_PERIODS_def MAX_PERIODS_def)
  then show ?thesis by auto
qed

end
